theory Spec2Isabelle
  imports Main "HOL-Library.AList"
begin

section \<open>Values, errors and printed lines\<close>

text \<open>
  The repository is one Python module, \<^verbatim>\<open>protectedclass.py\<close>: a few string helpers and
  the class \<^verbatim>\<open>ProtectedClass\<close>, whose instances keep their attributes in the instance
  dictionary \<^verbatim>\<open>__dict__\<close> under a plain spelling (\<^verbatim>\<open>name\<close>) or a protected one
  (\<^verbatim>\<open>_name\<close>).

  Attribute names are Python strings, modelled as \<^typ>\<open>string\<close>; the helpers only compare
  characters with the underscore. Attribute values are arbitrary Python objects; the
  class never inspects them, so three kinds of data stand for them, \<^verbatim>\<open>None\<close> among
  them; none of them can be called.
\<close>

datatype val = PyNone | PyStr string | PyInt int

text \<open>
  The exceptions that occur: the module's own \<^verbatim>\<open>DunderAttributeError\<close>, the
  \<^verbatim>\<open>KeyError\<close> of a dictionary with the missing key, and the \<^verbatim>\<open>TypeError\<close> of calling
  a value that is not callable, with the name the value was found under.
\<close>

datatype error = DunderAttributeError | KeyError string | TypeError string

text \<open>What the methods print, one constructor per \<^verbatim>\<open>print\<close> call of the source.\<close>

datatype line =
    DelattrWarning string
  | DelattrWentWrong error string
  | UpdateattrException string string error
  | SomethingWentWrong error

section \<open>String helpers\<close>

definition startswith :: "string \<Rightarrow> string \<Rightarrow> bool" where
  "startswith s p = (take (length p) s = p)"

definition endswith :: "string \<Rightarrow> string \<Rightarrow> bool" where
  "endswith s p = (length p \<le> length s \<and> drop (length s - length p) s = p)"

definition removeprefix :: "string \<Rightarrow> string \<Rightarrow> string" where
  "removeprefix s p = (if startswith s p then drop (length p) s else s)"

definition lstrip :: "string \<Rightarrow> char \<Rightarrow> string" where
  "lstrip s c = dropWhile (\<lambda>x. x = c) s"

definition rstrip :: "string \<Rightarrow> char \<Rightarrow> string" where
  "rstrip s c = rev (dropWhile (\<lambda>x. x = c) (rev s))"

definition is_dunder_prefix :: "string \<Rightarrow> bool" where
  "is_dunder_prefix string = startswith string ''__''"

definition is_dunder_suffix :: "string \<Rightarrow> bool" where
  "is_dunder_suffix string = endswith string ''__''"

definition is_dunder_attrib :: "string \<Rightarrow> bool" where
  "is_dunder_attrib string = (is_dunder_prefix string \<and> is_dunder_suffix string)"

definition make_protected_name_prefix :: "string \<Rightarrow> bool \<Rightarrow> error + string" where
  "make_protected_name_prefix name ignore =
     (if ignore \<and> length name > 2
      then (if startswith name ''__'' then Inl DunderAttributeError else Inr (''_'' @ name))
      else Inr (''_'' @ name))"

definition undo_protected_name_prefix :: "string \<Rightarrow> string" where
  "undo_protected_name_prefix name =
     (if startswith name ''_'' then removeprefix name ''_'' else name)"

definition is_protected_name_prefix :: "string \<Rightarrow> bool" where
  "is_protected_name_prefix name = startswith name ''_''"

text \<open>The expression \<^verbatim>\<open>attr.lstrip('_').rstrip('_')\<close>, used by three methods.\<close>

definition stripped :: "string \<Rightarrow> string" where
  "stripped attr = rstrip (lstrip attr (CHR ''_'')) (CHR ''_'')"

section \<open>The instance dictionary\<close>

text \<open>
  A Python \<^verbatim>\<open>dict\<close> keeps its keys in insertion order, and \<^verbatim>\<open>protect()\<close> and
  \<^verbatim>\<open>unprotect()\<close> without names walk the keys in that order: the dictionary is an
  association list. Assigning to a key that is present keeps its place, assigning to a
  new key appends it, \<^verbatim>\<open>del\<close> of a missing key raises \<^verbatim>\<open>KeyError\<close>.
\<close>

type_synonym pydict = "(string \<times> val) list"

definition dict_keys :: "pydict \<Rightarrow> string list" where
  "dict_keys d = map fst d"

definition dict_contains :: "pydict \<Rightarrow> string \<Rightarrow> bool" where
  "dict_contains d k = (k \<in> set (dict_keys d))"

definition dict_getitem :: "pydict \<Rightarrow> string \<Rightarrow> error + val" where
  "dict_getitem d k = (case map_of d k of None \<Rightarrow> Inl (KeyError k) | Some v \<Rightarrow> Inr v)"

definition dict_setitem :: "pydict \<Rightarrow> string \<Rightarrow> val \<Rightarrow> pydict" where
  "dict_setitem d k v = AList.update k v d"

definition dict_delitem :: "pydict \<Rightarrow> string \<Rightarrow> error + pydict" where
  "dict_delitem d k = (if dict_contains d k then Inr (AList.delete k d) else Inl (KeyError k))"

section \<open>The container\<close>

text \<open>
  An instance is its dictionary; the lines printed so far are kept beside it, since a
  refused deletion and a caught exception show only there. A method returns its result,
  or the exception it raises, together with the instance as the call left it.
\<close>

record obj =
  dict :: pydict
  stdout :: "line list"

type_synonym 'a outcome = "(error + 'a) \<times> obj"

definition print :: "line \<Rightarrow> obj \<Rightarrow> obj" where
  "print l s = s\<lparr>stdout := stdout s @ [l]\<rparr>"

text \<open>A \<^verbatim>\<open>for\<close> loop over a list: an exception of the body ends the loop.\<close>

fun for_each :: "('a \<Rightarrow> obj \<Rightarrow> unit outcome) \<Rightarrow> 'a list \<Rightarrow> obj \<Rightarrow> unit outcome" where
  "for_each body [] s = (Inr (), s)"
| "for_each body (x # xs) s =
     (case body x s of
        (Inl e, s1) \<Rightarrow> (Inl e, s1)
      | (Inr u, s1) \<Rightarrow> for_each body xs s1)"

text \<open>
  A call \<^verbatim>\<open>self.name(...)\<close> first looks \<^verbatim>\<open>name\<close> up on the instance. The methods of the
  class are plain functions, so a key \<^verbatim>\<open>name\<close> of the instance dictionary is found before
  the method; what is stored there is data, and calling it raises \<^verbatim>\<open>TypeError\<close>. The
  class stores names of its callers' choice in that dictionary, so such a key is an
  ordinary input. \<open>self_call\<close> is the call of a method that may change the instance,
  \<open>self_query\<close> the call of one that only reads it. \<^verbatim>\<open>self.__dict__\<close> is not looked up
  this way (it is a data descriptor of the type), and neither are the hooks when the
  interpreter invokes them for \<^verbatim>\<open>obj.x\<close>, \<^verbatim>\<open>obj.x = v\<close> and \<^verbatim>\<open>del obj.x\<close>.
\<close>

definition self_call :: "string \<Rightarrow> (obj \<Rightarrow> 'a outcome) \<Rightarrow> obj \<Rightarrow> 'a outcome" where
  "self_call name method s =
     (if dict_contains (dict s) name then (Inl (TypeError name), s) else method s)"

definition self_query :: "string \<Rightarrow> obj \<Rightarrow> error + 'a \<Rightarrow> error + 'a" where
  "self_query name s result =
     (if dict_contains (dict s) name then Inl (TypeError name) else result)"

text \<open>
  \<^verbatim>\<open>_getforbiddenlist\<close> finds, by reflection (\<^verbatim>\<open>dir\<close>, \<^verbatim>\<open>getattr\<close>, \<^verbatim>\<open>callable\<close>), the
  names that the instance and its type both have and whose value on the type is neither
  callable nor a dunder name. Every name of the type is a name of the instance, so the
  list depends on the class alone; it is the parameter \<open>forbiddenlist\<close> of the methods
  below. For \<^verbatim>\<open>ProtectedClass\<close> itself it holds \<^verbatim>\<open>_abc_impl\<close>, which \<^verbatim>\<open>ABC\<close> sets on
  every class; for \<^verbatim>\<open>MyDataClass\<close> it holds the three properties as well.
\<close>

definition ProtectedClass_forbiddenlist :: "string list" where
  "ProtectedClass_forbiddenlist = [''_abc_impl'']"

definition MyDataClass_forbiddenlist :: "string list" where
  "MyDataClass_forbiddenlist = [''count'', ''backup_set'', ''backup_date'', ''_abc_impl'']"

definition setattr :: "string \<Rightarrow> val \<Rightarrow> obj \<Rightarrow> obj" where
  "setattr attr value s = s\<lparr>dict := dict_setitem (dict s) attr value\<rparr>"

text \<open>The call \<^verbatim>\<open>self.__setattr__(attr, value)\<close> made by other methods.\<close>

definition call_setattr :: "string \<Rightarrow> val \<Rightarrow> obj \<Rightarrow> unit outcome" where
  "call_setattr attr value s = self_call ''__setattr__'' (\<lambda>t. (Inr (), setattr attr value t)) s"

definition isforbidden :: "string list \<Rightarrow> obj \<Rightarrow> string \<Rightarrow> error + bool" where
  "isforbidden forbiddenlist s attr =
     self_query ''_getforbiddenlist'' s (Inr (stripped attr \<in> set forbiddenlist))"

text \<open>
  One turn of the loop of \<^verbatim>\<open>__delattr__\<close>. The test \<^verbatim>\<open>self._isforbidden(key)\<close> stands
  before the \<^verbatim>\<open>try\<close>: its exception leaves the method; one of the deletion is printed.
\<close>

definition delattr_key :: "string list \<Rightarrow> string \<Rightarrow> obj \<Rightarrow> unit outcome" where
  "delattr_key forbiddenlist key s =
     (case self_query ''_isforbidden'' s (isforbidden forbiddenlist s key) of
        Inl e \<Rightarrow> (Inl e, s)
      | Inr forbidden \<Rightarrow>
          (if forbidden
           then (Inr (), print (DelattrWarning key) s)
           else (case dict_delitem (dict s) key of
                   Inr d \<Rightarrow> (Inr (), s\<lparr>dict := d\<rparr>)
                 | Inl e \<Rightarrow> (Inr (), print (DelattrWentWrong e key) s))))"

definition delattr :: "string list \<Rightarrow> string list \<Rightarrow> obj \<Rightarrow> unit outcome" where
  "delattr forbiddenlist attr s = for_each (delattr_key forbiddenlist) attr s"

text \<open>
  \<^verbatim>\<open>__getattr__\<close>: only a \<^verbatim>\<open>KeyError\<close> of the two reads is caught; the handler calls
  \<^verbatim>\<open>self.__setattr__\<close>, and an exception of that call leaves the method.
\<close>

definition getattr :: "string \<Rightarrow> obj \<Rightarrow> val outcome" where
  "getattr attr s =
     (case (if dict_contains (dict s) attr
            then dict_getitem (dict s) attr
            else dict_getitem (dict s) (''_'' @ attr)) of
        Inr v \<Rightarrow> (Inr v, s)
      | Inl e \<Rightarrow>
          (case e of
             KeyError k \<Rightarrow>
               (case call_setattr attr PyNone s of
                  (Inl e', s1) \<Rightarrow> (Inl e', s1)
                | (Inr u, s1) \<Rightarrow> (Inr PyNone, s1))
           | DunderAttributeError \<Rightarrow> (Inl e, s)
           | TypeError n \<Rightarrow> (Inl e, s)))"

definition initprotect :: "string \<Rightarrow> val \<Rightarrow> obj \<Rightarrow> unit outcome" where
  "initprotect attr value s = call_setattr (''_'' @ attr) value s"

definition hasattr :: "obj \<Rightarrow> string \<Rightarrow> bool" where
  "hasattr s attr = dict_contains (dict s) attr"

text \<open>
  The two predicates call \<^verbatim>\<open>self._hasattr\<close>; \<^verbatim>\<open>_hasprotectedattr\<close> calls it up to three
  times, the first time only for a name that starts with an underscore.
\<close>

definition hasprotectedattr :: "obj \<Rightarrow> string \<Rightarrow> error + bool" where
  "hasprotectedattr s attr =
     (case (if startswith attr ''_''
            then self_query ''_hasattr'' s (Inr (hasattr s attr))
            else Inr False) of
        Inl e \<Rightarrow> Inl e
      | Inr own \<Rightarrow>
          (if own then Inr True
           else (case self_query ''_hasattr'' s (Inr (hasattr s (''_'' @ stripped attr))) of
                   Inl e \<Rightarrow> Inl e
                 | Inr one \<Rightarrow>
                     (if one then Inr True
                      else (case self_query ''_hasattr'' s
                                   (Inr (hasattr s (''__'' @ stripped attr))) of
                              Inl e \<Rightarrow> Inl e
                            | Inr two \<Rightarrow> (if two then Inr True else Inr False))))))"

definition hasunprotectedattr :: "obj \<Rightarrow> string \<Rightarrow> error + bool" where
  "hasunprotectedattr s attr = self_query ''_hasattr'' s (Inr (hasattr s (stripped attr)))"

text \<open>
  \<^verbatim>\<open>_updateattr\<close>: the three calls stand in one \<^verbatim>\<open>try\<close>; an exception of any of them
  is printed and raised again, with the instance as the calls before it left it.
\<close>

definition updateattr :: "string list \<Rightarrow> string \<Rightarrow> string \<Rightarrow> obj \<Rightarrow> unit outcome" where
  "updateattr forbiddenlist oldname newname s =
     (case (case self_call ''__getattr__'' (getattr oldname) s of
              (Inl e, s1) \<Rightarrow> (Inl e, s1)
            | (Inr data, s1) \<Rightarrow>
                (case call_setattr newname data s1 of
                   (Inl e, s2) \<Rightarrow> (Inl e, s2)
                 | (Inr u, s2) \<Rightarrow>
                     self_call ''__delattr__'' (delattr forbiddenlist [oldname]) s2)) of
        (Inl e, s3) \<Rightarrow> (Inl e, print (UpdateattrException oldname newname e) s3)
      | (Inr u, s3) \<Rightarrow> (Inr (), s3))"

text \<open>
  One turn of the loop of \<^verbatim>\<open>protect\<close>. The two tests stand before the \<^verbatim>\<open>try\<close>, the
  second is made only when the first is false; the \<^verbatim>\<open>try\<close> block computes both names
  and renames; \<^verbatim>\<open>except Exception\<close> prints and goes on.
\<close>

definition protect_arg :: "string list \<Rightarrow> string \<Rightarrow> obj \<Rightarrow> unit outcome" where
  "protect_arg forbiddenlist arg s =
     (case self_query ''_isforbidden'' s (isforbidden forbiddenlist s arg) of
        Inl e \<Rightarrow> (Inl e, s)
      | Inr forbidden \<Rightarrow>
          (if forbidden then (Inr (), s)
           else (case self_query ''_hasunprotectedattr'' s (hasunprotectedattr s arg) of
                   Inl e \<Rightarrow> (Inl e, s)
                 | Inr unprotected \<Rightarrow>
                     (if unprotected
                      then (case (let old = undo_protected_name_prefix arg in
                                  case make_protected_name_prefix old False of
                                    Inl e \<Rightarrow> (Inl e, s)
                                  | Inr new \<Rightarrow>
                                      self_call ''_updateattr''
                                        (updateattr forbiddenlist old new) s) of
                              (Inl e, s1) \<Rightarrow> (Inr (), print (SomethingWentWrong e) s1)
                            | (Inr u, s1) \<Rightarrow> (Inr (), s1))
                      else (Inr (), s)))))"

definition protect :: "string list \<Rightarrow> string list \<Rightarrow> obj \<Rightarrow> unit outcome" where
  "protect forbiddenlist attr s =
     (let keys = dict_keys (dict s);
          attr' = (if attr \<noteq> [] then attr else keys)
      in for_each (protect_arg forbiddenlist) attr' s)"

definition unprotect_arg :: "string list \<Rightarrow> string \<Rightarrow> obj \<Rightarrow> unit outcome" where
  "unprotect_arg forbiddenlist arg s =
     (case self_query ''_isforbidden'' s (isforbidden forbiddenlist s arg) of
        Inl e \<Rightarrow> (Inl e, s)
      | Inr forbidden \<Rightarrow>
          (if forbidden then (Inr (), s)
           else (case self_query ''_hasprotectedattr'' s (hasprotectedattr s arg) of
                   Inl e \<Rightarrow> (Inl e, s)
                 | Inr protected \<Rightarrow>
                     (if protected
                      then (case (case make_protected_name_prefix arg False of
                                    Inl e \<Rightarrow> (Inl e, s)
                                  | Inr old \<Rightarrow>
                                      (let new = undo_protected_name_prefix old
                                       in self_call ''_updateattr''
                                            (updateattr forbiddenlist old new) s)) of
                              (Inl e, s1) \<Rightarrow> (Inr (), print (SomethingWentWrong e) s1)
                            | (Inr u, s1) \<Rightarrow> (Inr (), s1))
                      else (Inr (), s)))))"

definition unprotect :: "string list \<Rightarrow> string list \<Rightarrow> obj \<Rightarrow> unit outcome" where
  "unprotect forbiddenlist attr s =
     (let keys = dict_keys (dict s);
          attr' = (if attr \<noteq> [] then attr else keys)
      in for_each (unprotect_arg forbiddenlist) attr' s)"

text \<open>
  \<^verbatim>\<open>__init__\<close>, on a fresh instance: the positional arguments first, each with
  \<^verbatim>\<open>None\<close>, then the keyword arguments in their order, each through
  \<^verbatim>\<open>self._initprotect\<close>. When a call raises, the constructor raises and its caller gets
  no instance; the model then returns the exception with the instance as far as it was
  built. A positional argument may be any object; its key is an underscore and the
  argument's string form, and the model takes that string as the argument.
\<close>

definition new_obj :: obj where
  "new_obj = \<lparr>dict = [], stdout = []\<rparr>"

definition init :: "string list \<Rightarrow> (string \<times> val) list \<Rightarrow> unit outcome" where
  "init args kwargs =
     (case for_each (\<lambda>arg. self_call ''_initprotect'' (initprotect arg PyNone)) args new_obj of
        (Inl e, s) \<Rightarrow> (Inl e, s)
      | (Inr u, s) \<Rightarrow>
          for_each (\<lambda>(k, v). self_call ''_initprotect'' (initprotect k v)) kwargs s)"

text \<open>\<^verbatim>\<open>MyDataClass.__init__\<close> passes \<^verbatim>\<open>'hello'\<close> before its own arguments.\<close>

definition MyDataClass_init :: "string list \<Rightarrow> (string \<times> val) list \<Rightarrow> unit outcome" where
  "MyDataClass_init args kwargs = init (''hello'' # args) kwargs"

section \<open>Vocabulary of the properties\<close>

text \<open>The content of the dictionary as a map: what is stored under each key.\<close>

abbreviation attrs :: "obj \<Rightarrow> string \<rightharpoonup> val" where
  "attrs s \<equiv> map_of (dict s)"


text \<open>
  The names that the source looks up on the instance: those that \<^verbatim>\<open>_updateattr\<close> and
  the hooks it calls look up, those that a call of \<^verbatim>\<open>protect\<close> or \<^verbatim>\<open>unprotect\<close> looks
  up, the caller's own lookup of the method among them, and with the constructor's, all
  of them. An instance is unshadowed for such a list when it stores none of the names.
\<close>

definition rename_names :: "string list" where
  "rename_names =
     [''__getattr__'', ''__setattr__'', ''__delattr__'', ''_isforbidden'', ''_getforbiddenlist'']"

definition toggle_names :: "string list" where
  "toggle_names =
     [''protect'', ''unprotect'', ''_hasattr'', ''_hasprotectedattr'', ''_hasunprotectedattr'',
      ''_updateattr''] @ rename_names"


definition unshadowed :: "string list \<Rightarrow> obj \<Rightarrow> bool" where
  "unshadowed names s = (\<forall>m \<in> set names. \<not> hasattr s m)"


text \<open>
  A history of an instance is its construction followed by calls of \<^verbatim>\<open>protect\<close> and
  \<^verbatim>\<open>unprotect\<close>, written \<^verbatim>\<open>obj.protect(...)\<close> and \<^verbatim>\<open>obj.unprotect(...)\<close> by a caller and
  run one after the other as a caller's statements are.
\<close>

datatype call = Protect "string list" | Unprotect "string list"


fun run_call :: "string list \<Rightarrow> call \<Rightarrow> obj \<Rightarrow> unit outcome" where
  "run_call forbiddenlist (Protect names) s = self_call ''protect'' (protect forbiddenlist names) s"
| "run_call forbiddenlist (Unprotect names) s =
     self_call ''unprotect'' (unprotect forbiddenlist names) s"

definition run_calls :: "string list \<Rightarrow> call list \<Rightarrow> obj \<Rightarrow> unit outcome" where
  "run_calls forbiddenlist calls s = for_each (run_call forbiddenlist) calls s"


text \<open>The exception that a printed line reports, if it reports one.\<close>

definition line_error :: "line \<Rightarrow> error option" where
  "line_error l =
     (case l of
        DelattrWarning key \<Rightarrow> None
      | DelattrWentWrong e key \<Rightarrow> Some e
      | UpdateattrException old new e \<Rightarrow> Some e
      | SomethingWentWrong e \<Rightarrow> Some e)"

text \<open>
  What holds of every call of every method: it returns, or it raises the \<^verbatim>\<open>TypeError\<close>
  of a shadowed method, and the lines it prints report no \<^verbatim>\<open>DunderAttributeError\<close>.
\<close>

definition quiet :: "obj \<Rightarrow> 'a outcome \<Rightarrow> bool" where
  "quiet s r =
     (((\<exists>x. fst r = Inr x) \<or> (\<exists>n. fst r = Inl (TypeError n)))
      \<and> (\<exists>ls. stdout (snd r) = stdout s @ ls
               \<and> list_all (\<lambda>l. line_error l \<noteq> Some DunderAttributeError) ls))"

section \<open>Facts about the helpers and the dictionary\<close>

lemma startswith_us: "startswith s ''_'' \<longleftrightarrow> (\<exists>t. s = CHR ''_'' # t)"
  by (cases s) (auto simp: startswith_def)



lemma undo_Cons [simp]: "undo_protected_name_prefix (CHR ''_'' # t) = t"
  by (simp add: undo_protected_name_prefix_def removeprefix_def startswith_def)

lemma undo_plain: "\<not> startswith s ''_'' \<Longrightarrow> undo_protected_name_prefix s = s"
  by (simp add: undo_protected_name_prefix_def)



lemma make_unguarded [simp]: "make_protected_name_prefix name False = Inr (CHR ''_'' # name)"
  by (simp add: make_protected_name_prefix_def)

lemma dict_contains_map_of: "dict_contains d k \<longleftrightarrow> map_of d k \<noteq> None"
  by (simp add: dict_contains_def dict_keys_def map_of_eq_None_iff)

lemma hasattr_attrs: "hasattr s k \<longleftrightarrow> attrs s k \<noteq> None"
  by (simp add: hasattr_def dict_contains_map_of)


lemma attrs_setattr [simp]: "attrs (setattr k v s) = (attrs s)(k \<mapsto> v)"
  by (simp add: setattr_def dict_setitem_def update_conv')

lemma stdout_setattr [simp]: "stdout (setattr k v s) = stdout s"
  by (simp add: setattr_def)

lemma hasattr_setattr: "hasattr (setattr k v s) m \<longleftrightarrow> m = k \<or> hasattr s m"
  by (auto simp: hasattr_attrs)

lemma dict_print [simp]: "dict (print l s) = dict s"
  by (simp add: print_def)

lemma hasattr_print [simp]: "hasattr (print l s) m = hasattr s m"
  by (simp add: hasattr_def)



lemma lstrip_Cons_us [simp]: "lstrip (CHR ''_'' # t) (CHR ''_'') = lstrip t (CHR ''_'')"
  by (simp add: lstrip_def)

lemma stripped_Cons_us [simp]: "stripped (CHR ''_'' # t) = stripped t"
  by (simp add: stripped_def)

lemma stripped_undo [simp]: "stripped (undo_protected_name_prefix a) = stripped a"
  by (cases "startswith a ''_''") (auto simp: startswith_us undo_plain)

lemma stripped_not_startswith: "\<not> startswith (stripped a) ''_''"
proof
  assume "startswith (stripped a) ''_''"
  then obtain t where t: "stripped a = CHR ''_'' # t"
    by (auto simp: startswith_us)
  define u where "u = lstrip a (CHR ''_'')"
  have u: "u = [] \<or> hd u \<noteq> CHR ''_''"
    unfolding u_def lstrip_def by (metis (mono_tags, lifting) hd_dropWhile)
  have "u = rev (takeWhile (\<lambda>x. x = CHR ''_'') (rev u) @ dropWhile (\<lambda>x. x = CHR ''_'') (rev u))"
    by simp
  then have "u = stripped a @ rev (takeWhile (\<lambda>x. x = CHR ''_'') (rev u))"
    by (simp add: stripped_def rstrip_def u_def del: takeWhile_dropWhile_id)
  with t have "u \<noteq> [] \<and> hd u = CHR ''_''"
    by (metis append_is_Nil_conv hd_append2 list.distinct(1) list.sel(1))
  with u show False by simp
qed

lemma stripped_fixed_plain: "stripped n = n \<Longrightarrow> \<not> startswith n ''_''"
  by (metis stripped_not_startswith)


lemma stripped_idem [simp]: "stripped (stripped a) = stripped a"
proof -
  let ?P = "\<lambda>x. x = CHR ''_''"
  define t where "t = stripped a"
  have nl: "t = [] \<or> \<not> ?P (hd t)"
    using stripped_not_startswith[of a] unfolding t_def by (cases "stripped a") (auto simp: startswith_us)
  have "rev t = dropWhile ?P (rev (lstrip a (CHR ''_'')))"
    by (simp add: t_def stripped_def rstrip_def)
  then have nr: "rev t = [] \<or> \<not> ?P (hd (rev t))"
    by (metis (mono_tags, lifting) hd_dropWhile)
  from nl have "dropWhile ?P t = t" by (cases t) auto
  moreover from nr have "dropWhile ?P (rev t) = rev t" by (cases "rev t") auto
  ultimately have "stripped t = t"
    by (simp add: stripped_def lstrip_def rstrip_def)
  then show ?thesis by (simp add: t_def)
qed

section \<open>Calls that find their method\<close>

lemma self_call_found: "\<not> hasattr s name \<Longrightarrow> self_call name method s = method s"
  by (simp add: self_call_def hasattr_def)

lemma self_call_shadowed: "hasattr s name \<Longrightarrow> self_call name method s = (Inl (TypeError name), s)"
  by (simp add: self_call_def hasattr_def)

lemma self_query_found: "\<not> hasattr s name \<Longrightarrow> self_query name s result = result"
  by (simp add: self_query_def hasattr_def)

lemma self_query_shadowed: "hasattr s name \<Longrightarrow> self_query name s result = Inl (TypeError name)"
  by (simp add: self_query_def hasattr_def)

lemma call_setattr_found:
  "\<not> hasattr s ''__setattr__'' \<Longrightarrow> call_setattr a v s = (Inr (), setattr a v s)"
  by (simp add: call_setattr_def self_call_found)

lemma unshadowedD: "unshadowed names s \<Longrightarrow> m \<in> set names \<Longrightarrow> \<not> hasattr s m"
  by (simp add: unshadowed_def)

lemma unshadowed_setattr:
  "unshadowed names (setattr k v s) \<longleftrightarrow> unshadowed names s \<and> k \<notin> set names"
  by (auto simp: unshadowed_def hasattr_setattr)

lemma unshadowed_mono:
  "unshadowed names s \<Longrightarrow> (\<And>m. hasattr t m \<Longrightarrow> hasattr s m) \<Longrightarrow> unshadowed names t"
  by (auto simp: unshadowed_def)

lemma unshadowed_subset: "unshadowed names s \<Longrightarrow> set ms \<subseteq> set names \<Longrightarrow> unshadowed ms s"
  by (auto simp: unshadowed_def)

lemma rename_in_toggle: "set rename_names \<subseteq> set toggle_names"
  by (auto simp: toggle_names_def)


lemma getattr_cases:
  "getattr a s =
     (if hasattr s a then (Inr (the (attrs s a)), s)
      else if hasattr s (CHR ''_'' # a) then (Inr (the (attrs s (CHR ''_'' # a))), s)
      else if hasattr s ''__setattr__'' then (Inl (TypeError ''__setattr__''), s)
      else (Inr PyNone, setattr a PyNone s))"
  by (auto simp: getattr_def hasattr_def dict_getitem_def dict_contains_map_of call_setattr_def
      self_call_def split: option.splits)

lemma isforbidden_found:
  "\<not> hasattr s ''_getforbiddenlist'' \<Longrightarrow> isforbidden forb s a = Inr (stripped a \<in> set forb)"
  by (simp add: isforbidden_def self_query_found)

lemma hasunprotectedattr_found:
  "\<not> hasattr s ''_hasattr'' \<Longrightarrow> hasunprotectedattr s a = Inr (hasattr s (stripped a))"
  by (simp add: hasunprotectedattr_def self_query_found)

lemma hasprotectedattr_found:
  "\<not> hasattr s ''_hasattr'' \<Longrightarrow>
   hasprotectedattr s a =
     Inr ((startswith a ''_'' \<and> hasattr s a) \<or> hasattr s (CHR ''_'' # stripped a)
          \<or> hasattr s (CHR ''_'' # CHR ''_'' # stripped a))"
  by (simp add: hasprotectedattr_def self_query_found)

lemma hasprotectedattr_shadowed:
  "hasattr s ''_hasattr'' \<Longrightarrow> hasprotectedattr s a = Inl (TypeError ''_hasattr'')"
  by (simp add: hasprotectedattr_def self_query_shadowed)

section \<open>Loops\<close>

lemma for_each_Cons_total:
  assumes "fst (body x s) = Inr ()"
  shows "for_each body (x # xs) s = for_each body xs (snd (body x s))"
  using assms by (cases "body x s") (auto split: sum.splits)

lemma for_each_single:
  "fst (body x s) = Inr () \<Longrightarrow> for_each body [x] s = (Inr (), snd (body x s))"
  by (cases "body x s") (auto split: sum.splits)


section \<open>Deleting\<close>

lemma delattr_key_found:
  assumes "\<not> hasattr s ''_isforbidden''" and "\<not> hasattr s ''_getforbiddenlist''"
  shows "delattr_key forb k s =
     (if stripped k \<in> set forb then (Inr (), print (DelattrWarning k) s)
      else if hasattr s k then (Inr (), s\<lparr>dict := AList.delete k (dict s)\<rparr>)
      else (Inr (), print (DelattrWentWrong (KeyError k) k) s))"
  using assms
  by (simp add: delattr_key_def self_query_found isforbidden_found dict_delitem_def hasattr_def)


lemma delattr_Nil [simp]: "delattr forb [] s = (Inr (), s)"
  by (simp add: delattr_def)

lemma delattr_key_fst:
  assumes "\<not> hasattr s ''_isforbidden''" and "\<not> hasattr s ''_getforbiddenlist''"
  shows "fst (delattr_key forb k s) = Inr ()"
  by (simp add: delattr_key_found[OF assms])

lemma delattr_key_attrs:
  assumes "\<not> hasattr s ''_isforbidden''" and "\<not> hasattr s ''_getforbiddenlist''"
  shows "attrs (snd (delattr_key forb k s)) =
           (if stripped k \<in> set forb then attrs s else (attrs s)(k := None))"
  by (auto simp: delattr_key_found[OF assms] delete_conv' hasattr_attrs)

lemma delattr_Cons:
  assumes "\<not> hasattr s ''_isforbidden''" and "\<not> hasattr s ''_getforbiddenlist''"
  shows "delattr forb (k # ks) s = delattr forb ks (snd (delattr_key forb k s))"
  unfolding delattr_def by (rule for_each_Cons_total) (rule delattr_key_fst[OF assms])

lemma delattr_single:
  assumes "\<not> hasattr s ''_isforbidden''" and "\<not> hasattr s ''_getforbiddenlist''"
  shows "delattr forb [k] s = (Inr (), snd (delattr_key forb k s))"
  by (simp add: delattr_Cons[OF assms])




section \<open>Renaming on an unshadowed instance\<close>

lemma unshadowed_rename_iff:
  "unshadowed rename_names s \<longleftrightarrow>
     \<not> hasattr s ''__getattr__'' \<and> \<not> hasattr s ''__setattr__'' \<and> \<not> hasattr s ''__delattr__''
     \<and> \<not> hasattr s ''_isforbidden'' \<and> \<not> hasattr s ''_getforbiddenlist''"
  by (simp add: unshadowed_def rename_names_def)

lemma unshadowed_toggle_iff:
  "unshadowed toggle_names s \<longleftrightarrow>
     \<not> hasattr s ''protect'' \<and> \<not> hasattr s ''unprotect'' \<and> \<not> hasattr s ''_hasattr''
     \<and> \<not> hasattr s ''_hasprotectedattr'' \<and> \<not> hasattr s ''_hasunprotectedattr''
     \<and> \<not> hasattr s ''_updateattr'' \<and> unshadowed rename_names s"
  by (auto simp: unshadowed_def toggle_names_def)


lemma updateattr_steps:
  assumes u: "unshadowed rename_names s"
      and o: "old \<notin> set rename_names" and n: "new \<notin> set rename_names"
  defines "v \<equiv> (if hasattr s old then the (attrs s old)
                 else if hasattr s (CHR ''_'' # old) then the (attrs s (CHR ''_'' # old))
                 else PyNone)"
      and "s1 \<equiv> (if hasattr s old \<or> hasattr s (CHR ''_'' # old) then s else setattr old PyNone s)"
  shows "updateattr forb old new s = (Inr (), snd (delattr_key forb old (setattr new v s1)))"
    and "unshadowed rename_names (setattr new v s1)"
proof -
  from u have g: "self_call ''__getattr__'' (getattr old) s = (Inr v, s1)"
    by (auto simp: unshadowed_rename_iff self_call_found getattr_cases v_def s1_def)
  from u o have u1: "unshadowed rename_names s1"
    by (simp add: unshadowed_setattr s1_def)
  then have c: "call_setattr new v s1 = (Inr (), setattr new v s1)"
    by (simp add: unshadowed_rename_iff call_setattr_found)
  from u1 n show u2: "unshadowed rename_names (setattr new v s1)"
    by (simp add: unshadowed_setattr)
  then have d: "self_call ''__delattr__'' (delattr forb [old]) (setattr new v s1)
      = (Inr (), snd (delattr_key forb old (setattr new v s1)))"
    by (simp add: unshadowed_rename_iff self_call_found delattr_single)
  show "updateattr forb old new s = (Inr (), snd (delattr_key forb old (setattr new v s1)))"
    by (simp add: updateattr_def g c d)
qed

lemma updateattr_attrs:
  assumes "unshadowed rename_names s"
      and "old \<notin> set rename_names" and "new \<notin> set rename_names"
      and "stripped old \<notin> set forb"
  shows "attrs (snd (updateattr forb old new s)) =
     ((attrs s)(new \<mapsto> (if hasattr s old then the (attrs s old)
                           else if hasattr s (CHR ''_'' # old) then the (attrs s (CHR ''_'' # old))
                           else PyNone)))(old := None)"
proof -
  define v where "v = (if hasattr s old then the (attrs s old)
                 else if hasattr s (CHR ''_'' # old) then the (attrs s (CHR ''_'' # old))
                 else PyNone)"
  define s1 where "s1 = (if hasattr s old \<or> hasattr s (CHR ''_'' # old) then s else setattr old PyNone s)"
  define s2 where "s2 = setattr new v s1"
  note st = updateattr_steps(1)[OF assms(1-3), of forb, folded v_def s1_def, folded s2_def]
    updateattr_steps(2)[OF assms(1-3), folded v_def s1_def, folded s2_def]
  from st(2) assms(4) have "attrs (snd (delattr_key forb old s2)) = (attrs s2)(old := None)"
    by (simp add: unshadowed_rename_iff delattr_key_attrs)
  then have "attrs (snd (updateattr forb old new s)) = (attrs s2)(old := None)"
    by (simp add: st(1))
  also have "\<dots> = ((attrs s)(new \<mapsto> v))(old := None)"
    by (auto simp: s2_def s1_def fun_eq_iff)
  finally show ?thesis by (simp add: v_def)
qed

lemma updateattr_fst:
  assumes "unshadowed rename_names s"
      and "old \<notin> set rename_names" and "new \<notin> set rename_names"
  shows "fst (updateattr forb old new s) = Inr ()"
  by (simp add: updateattr_steps(1)[OF assms])

lemma updateattr_hasattr:
  assumes "unshadowed rename_names s"
      and "old \<notin> set rename_names" and "new \<notin> set rename_names"
      and "stripped old \<notin> set forb"
  shows "hasattr (snd (updateattr forb old new s)) k \<longleftrightarrow> (k = new \<or> hasattr s k) \<and> k \<noteq> old"
  by (simp add: hasattr_attrs updateattr_attrs[OF assms])

lemma updateattr_prints:
  assumes "unshadowed rename_names s"
      and "old \<notin> set rename_names" and "new \<notin> set rename_names"
      and "stripped old \<notin> set forb"
  shows "stdout (snd (updateattr forb old new s)) =
           (if hasattr s old \<or> \<not> hasattr s (CHR ''_'' # old) \<or> old = new then stdout s
            else stdout s @ [DelattrWentWrong (KeyError old) old])"
proof -
  define v where "v = (if hasattr s old then the (attrs s old)
                 else if hasattr s (CHR ''_'' # old) then the (attrs s (CHR ''_'' # old))
                 else PyNone)"
  define s1 where "s1 = (if hasattr s old \<or> hasattr s (CHR ''_'' # old) then s else setattr old PyNone s)"
  define s2 where "s2 = setattr new v s1"
  note st = updateattr_steps(1)[OF assms(1-3), of forb, folded v_def s1_def, folded s2_def]
    updateattr_steps(2)[OF assms(1-3), folded v_def s1_def, folded s2_def]
  from st(2) assms(4) have k: "delattr_key forb old s2 =
      (if hasattr s2 old then (Inr (), s2\<lparr>dict := AList.delete old (dict s2)\<rparr>)
       else (Inr (), print (DelattrWentWrong (KeyError old) old) s2))"
    by (simp add: unshadowed_rename_iff delattr_key_found)
  have h: "hasattr s2 old \<longleftrightarrow> hasattr s old \<or> \<not> hasattr s (CHR ''_'' # old) \<or> old = new"
    by (auto simp: s2_def s1_def hasattr_setattr)
  have o: "stdout s2 = stdout s"
    by (simp add: s2_def s1_def)
  show ?thesis
    unfolding st(1) k h by (simp add: print_def o)
qed

section \<open>A turn of protect and of unprotect on an unshadowed instance\<close>

lemma protect_arg_found:
  assumes u: "unshadowed toggle_names s"
      and o: "undo_protected_name_prefix a \<notin> set rename_names"
      and n: "CHR ''_'' # undo_protected_name_prefix a \<notin> set rename_names"
  shows "protect_arg forb a s =
     (Inr (), if stripped a \<notin> set forb \<and> hasattr s (stripped a)
              then snd (updateattr forb (undo_protected_name_prefix a)
                          (CHR ''_'' # undo_protected_name_prefix a) s)
              else s)"
proof -
  from u have r: "unshadowed rename_names s"
    by (simp add: unshadowed_toggle_iff)
  from u have f: "self_query ''_isforbidden'' s (isforbidden forb s a) = Inr (stripped a \<in> set forb)"
    by (simp add: unshadowed_toggle_iff unshadowed_rename_iff self_query_found isforbidden_found)
  from u have h: "self_query ''_hasunprotectedattr'' s (hasunprotectedattr s a)
      = Inr (hasattr s (stripped a))"
    by (simp add: unshadowed_toggle_iff self_query_found hasunprotectedattr_found)
  from u have c: "self_call ''_updateattr''
        (updateattr forb (undo_protected_name_prefix a) (CHR ''_'' # undo_protected_name_prefix a)) s
      = (Inr (), snd (updateattr forb (undo_protected_name_prefix a)
                        (CHR ''_'' # undo_protected_name_prefix a) s))"
    using updateattr_fst[OF r o n, of forb]
    by (simp add: unshadowed_toggle_iff self_call_found prod_eq_iff)
  show ?thesis
    unfolding protect_arg_def f h by (simp add: c Let_def)
qed

lemma unprotect_arg_found:
  assumes u: "unshadowed toggle_names s"
      and o: "CHR ''_'' # a \<notin> set rename_names"
      and n: "a \<notin> set rename_names"
  shows "unprotect_arg forb a s =
     (Inr (), if stripped a \<notin> set forb
                 \<and> ((startswith a ''_'' \<and> hasattr s a) \<or> hasattr s (CHR ''_'' # stripped a)
                    \<or> hasattr s (CHR ''_'' # CHR ''_'' # stripped a))
              then snd (updateattr forb (CHR ''_'' # a) a s)
              else s)"
proof -
  from u have r: "unshadowed rename_names s"
    by (simp add: unshadowed_toggle_iff)
  from u have f: "self_query ''_isforbidden'' s (isforbidden forb s a) = Inr (stripped a \<in> set forb)"
    by (simp add: unshadowed_toggle_iff unshadowed_rename_iff self_query_found isforbidden_found)
  from u have h: "self_query ''_hasprotectedattr'' s (hasprotectedattr s a)
      = Inr ((startswith a ''_'' \<and> hasattr s a) \<or> hasattr s (CHR ''_'' # stripped a)
             \<or> hasattr s (CHR ''_'' # CHR ''_'' # stripped a))"
    by (simp add: unshadowed_toggle_iff self_query_found hasprotectedattr_found)
  from u have c: "self_call ''_updateattr'' (updateattr forb (CHR ''_'' # a) a) s
      = (Inr (), snd (updateattr forb (CHR ''_'' # a) a s))"
    using updateattr_fst[OF r o n, of forb]
    by (simp add: unshadowed_toggle_iff self_call_found prod_eq_iff)
  show ?thesis
    unfolding unprotect_arg_def f h by (simp add: c Let_def)
qed

lemma protect_single:
  assumes "fst (protect_arg forb n s) = Inr ()"
  shows "protect forb [n] s = (Inr (), snd (protect_arg forb n s))"
  using for_each_single[of "protect_arg forb" n s, OF assms]
  by (simp add: protect_def del: for_each.simps)

lemma unprotect_single:
  assumes "fst (unprotect_arg forb n s) = Inr ()"
  shows "unprotect forb [n] s = (Inr (), snd (unprotect_arg forb n s))"
  using for_each_single[of "unprotect_arg forb" n s, OF assms]
  by (simp add: unprotect_def del: for_each.simps)

section \<open>The invariant of histories with safe names\<close>















section \<open>Construction\<close>




section \<open>What every call raises and prints\<close>

lemma quiet_return [simp]: "quiet s (Inr x, s)"
  by (simp add: quiet_def)

lemma quiet_type_error [simp]: "quiet s (Inl (TypeError n), s)"
  by (simp add: quiet_def)

lemma quiet_setattr [simp]: "quiet s (Inr x, setattr k v s)"
  by (simp add: quiet_def)

lemma quiet_trans:
  assumes "quiet s (r1, t)" and "quiet t r2"
  shows "quiet s r2"
proof -
  from assms obtain l1 l2 where "stdout t = stdout s @ l1" "stdout (snd r2) = stdout t @ l2"
    and "list_all (\<lambda>l. line_error l \<noteq> Some DunderAttributeError) (l1 @ l2)"
    by (auto simp: quiet_def)
  then have "\<exists>ls. stdout (snd r2) = stdout s @ ls
      \<and> list_all (\<lambda>l. line_error l \<noteq> Some DunderAttributeError) ls"
    by (intro exI[of _ "l1 @ l2"]) simp
  with assms(2) show ?thesis by (simp add: quiet_def)
qed

lemma quiet_bind:
  assumes "quiet s r" and "\<And>x t. r = (Inr x, t) \<Longrightarrow> quiet t (f x t)"
  shows "quiet s (case r of (Inl e, s1) \<Rightarrow> (Inl e, s1) | (Inr x, s1) \<Rightarrow> f x s1)"
proof (cases r)
  case (Pair a t)
  show ?thesis
  proof (cases a)
    case (Inl e)
    with Pair assms(1) show ?thesis by (simp add: quiet_def)
  next
    case (Inr x)
    with Pair assms(2)[of x t] have "quiet t (f x t)" by simp
    with assms(1) Pair Inr show ?thesis by (auto intro: quiet_trans)
  qed
qed

lemma quiet_print:
  assumes "quiet s (r, t)" and "line_error l \<noteq> Some DunderAttributeError"
  shows "quiet s (Inr x, print l t)"
proof -
  from assms(1) obtain ls where "stdout t = stdout s @ ls"
    "list_all (\<lambda>l. line_error l \<noteq> Some DunderAttributeError) ls"
    by (auto simp: quiet_def)
  with assms(2) have "stdout (print l t) = stdout s @ (ls @ [l])
      \<and> list_all (\<lambda>l. line_error l \<noteq> Some DunderAttributeError) (ls @ [l])"
    by (simp add: print_def)
  then show ?thesis unfolding quiet_def by (metis fst_conv snd_conv)
qed

lemma quiet_reraise:
  assumes "quiet s r" and "\<And>e. line_error (L e) = Some e"
  shows "quiet s (case r of (Inl e, t) \<Rightarrow> (Inl e, print (L e) t) | (Inr u, t) \<Rightarrow> (Inr (), t))"
proof (cases r)
  case (Pair a t)
  show ?thesis
  proof (cases a)
    case (Inl e)
    with Pair assms(1) obtain n where n: "e = TypeError n" by (auto simp: quiet_def)
    from assms(1) Pair obtain ls where "stdout t = stdout s @ ls"
      "list_all (\<lambda>l. line_error l \<noteq> Some DunderAttributeError) ls"
      by (auto simp: quiet_def)
    with assms(2)[of e] n have "stdout (print (L e) t) = stdout s @ (ls @ [L e])
        \<and> list_all (\<lambda>l. line_error l \<noteq> Some DunderAttributeError) (ls @ [L e])"
      by (simp add: print_def)
    then have "\<exists>ls. stdout (print (L e) t) = stdout s @ ls
        \<and> list_all (\<lambda>l. line_error l \<noteq> Some DunderAttributeError) ls"
      by blast
    with Pair Inl n show ?thesis by (simp add: quiet_def)
  next
    case (Inr u)
    with Pair assms(1) show ?thesis by (simp add: quiet_def)
  qed
qed

lemma quiet_caught:
  assumes "quiet s r" and "\<And>e. line_error (L e) = Some e"
  shows "quiet s (case r of (Inl e, t) \<Rightarrow> (Inr (), print (L e) t) | (Inr u, t) \<Rightarrow> (Inr (), t))"
proof -
  from quiet_reraise[OF assms] have
    "quiet s (case r of (Inl e, t) \<Rightarrow> (Inl e, print (L e) t) | (Inr u, t) \<Rightarrow> (Inr (), t))" .
  then show ?thesis
    by (cases r) (auto simp: quiet_def split: sum.splits)
qed

lemma quiet_self_call: "quiet s (method s) \<Longrightarrow> quiet s (self_call name method s)"
  by (simp add: self_call_def)

lemma quiet_call_setattr [simp]: "quiet s (call_setattr a v s)"
  by (simp add: call_setattr_def self_call_def)

lemma quiet_getattr [simp]: "quiet s (getattr a s)"
  by (simp add: getattr_cases)

lemma isforbidden_outcomes:
  "self_query ''_isforbidden'' s (isforbidden forb s a) = Inr (stripped a \<in> set forb)
   \<or> (\<exists>n. self_query ''_isforbidden'' s (isforbidden forb s a) = Inl (TypeError n))"
  by (simp add: self_query_def isforbidden_def)

lemma quiet_delattr_key [simp]: "quiet s (delattr_key forb k s)"
proof -
  have "quiet s (Inr (), print (DelattrWarning k) s)"
    by (rule quiet_print[of s "Inr ()"]) (simp_all add: line_error_def)
  moreover have "quiet s (Inr (), print (DelattrWentWrong (KeyError k) k) s)"
    by (rule quiet_print[of s "Inr ()"]) (simp_all add: line_error_def)
  moreover have "quiet s (Inr (), s\<lparr>dict := d\<rparr>)" for d
    by (simp add: quiet_def)
  ultimately show ?thesis
    using isforbidden_outcomes[of s forb k]
    by (auto simp: delattr_key_def dict_delitem_def)
qed

lemma quiet_for_each:
  assumes "\<And>x s. quiet s (body x s)"
  shows "quiet s (for_each body xs s)"
proof (induction xs arbitrary: s)
  case Nil
  show ?case by simp
next
  case (Cons x xs)
  have "quiet s (case body x s of (Inl e, s1) \<Rightarrow> (Inl e, s1)
                 | (Inr u, s1) \<Rightarrow> for_each body xs s1)"
    by (rule quiet_bind) (rule assms, rule Cons)
  then show ?case by simp
qed

lemma quiet_delattr [simp]: "quiet s (delattr forb ks s)"
  unfolding delattr_def by (rule quiet_for_each) simp

lemma quiet_updateattr [simp]: "quiet s (updateattr forb old new s)"
  unfolding updateattr_def
proof (rule quiet_reraise)
  show "quiet s (case self_call ''__getattr__'' (getattr old) s of
          (Inl e, s1) \<Rightarrow> (Inl e, s1)
        | (Inr data, s1) \<Rightarrow>
            (case call_setattr new data s1 of
               (Inl e, s2) \<Rightarrow> (Inl e, s2)
             | (Inr u, s2) \<Rightarrow> self_call ''__delattr__'' (delattr forb [old]) s2))"
    by (intro quiet_bind quiet_self_call) simp_all
qed (simp add: line_error_def)

lemma hasunprotectedattr_outcomes:
  "(\<exists>b. self_query ''_hasunprotectedattr'' s (hasunprotectedattr s a) = Inr b)
   \<or> (\<exists>n. self_query ''_hasunprotectedattr'' s (hasunprotectedattr s a) = Inl (TypeError n))"
  by (simp add: self_query_def hasunprotectedattr_def)

lemma hasprotectedattr_outcomes:
  "(\<exists>b. self_query ''_hasprotectedattr'' s (hasprotectedattr s a) = Inr b)
   \<or> (\<exists>n. self_query ''_hasprotectedattr'' s (hasprotectedattr s a) = Inl (TypeError n))"
  by (cases "hasattr s ''_hasattr''")
     (simp_all add: self_query_def hasprotectedattr_found hasprotectedattr_shadowed)

lemma quiet_protect_arg [simp]: "quiet s (protect_arg forb a s)"
proof -
  have c: "quiet s (case self_call ''_updateattr''
                (updateattr forb (undo_protected_name_prefix a)
                   (CHR ''_'' # undo_protected_name_prefix a)) s of
             (Inl e, s1) \<Rightarrow> (Inr (), print (SomethingWentWrong e) s1)
           | (Inr u, s1) \<Rightarrow> (Inr (), s1))"
    by (rule quiet_caught) (simp_all add: quiet_self_call line_error_def)
  show ?thesis
    using isforbidden_outcomes[of s forb a] hasunprotectedattr_outcomes[of s a] c
    by (auto simp: protect_arg_def Let_def)
qed

lemma quiet_unprotect_arg [simp]: "quiet s (unprotect_arg forb a s)"
proof -
  have c: "quiet s (case self_call ''_updateattr'' (updateattr forb (CHR ''_'' # a) a) s of
             (Inl e, s1) \<Rightarrow> (Inr (), print (SomethingWentWrong e) s1)
           | (Inr u, s1) \<Rightarrow> (Inr (), s1))"
    by (rule quiet_caught) (simp_all add: quiet_self_call line_error_def)
  show ?thesis
    using isforbidden_outcomes[of s forb a] hasprotectedattr_outcomes[of s a] c
    by (auto simp: unprotect_arg_def Let_def)
qed

lemma quiet_protect: "quiet s (protect forb names s)"
  unfolding protect_def Let_def by (rule quiet_for_each) simp

lemma quiet_unprotect: "quiet s (unprotect forb names s)"
  unfolding unprotect_def Let_def by (rule quiet_for_each) simp

section \<open>The interception hooks\<close>

text \<open>
  Claim C9. \<^verbatim>\<open>__setattr__\<close> writes the value under exactly the name it is given: the
  content of the dictionary afterwards is the content before with that one key set to
  the value, so every other key keeps what it held. A key that was present keeps its
  place and a new key is appended; nothing is printed.
\<close>

theorem setattr_exact_frame:
  "attrs (setattr name value s) = (attrs s)(name \<mapsto> value)
   \<and> dict_keys (dict (setattr name value s)) =
       (if hasattr s name then dict_keys (dict s) else dict_keys (dict s) @ [name])
   \<and> stdout (setattr name value s) = stdout s"
  by (simp add: setattr_def dict_setitem_def update_conv' dict_keys_def update_keys hasattr_def
      dict_contains_def)








section \<open>The naming helpers\<close>

text \<open>
  Claim C5, as the code has it. With the guard on, \<^verbatim>\<open>make_protected_name_prefix\<close> raises
  \<^verbatim>\<open>DunderAttributeError\<close> for a name longer than two characters that starts with two
  underscores; in every other case, the guard off among them, it returns the name with
  one underscore before it. So \<^verbatim>\<open>__secret__\<close> is refused with the guard on and becomes
  \<^verbatim>\<open>___secret__\<close> with the guard off.
\<close>

theorem guard_rejects_dunder_prefix_only:
  "make_protected_name_prefix name guard =
     (if guard \<and> 2 < length name \<and> startswith name ''__''
      then Inl DunderAttributeError else Inr (''_'' @ name))
   \<and> make_protected_name_prefix ''__secret__'' True = Inl DunderAttributeError
   \<and> make_protected_name_prefix ''__secret__'' False = Inr ''___secret__''"
  by (simp add: make_protected_name_prefix_def startswith_def)

text \<open>
  A name that starts with one underscore only is not refused: \<^verbatim>\<open>_abc\<close>, longer than two
  characters, gets a second underscore with the guard on.
\<close>

theorem guard_accepts_single_underscore:
  "2 < length ''_abc'' \<and> startswith ''_abc'' ''_''
   \<and> make_protected_name_prefix ''_abc'' True \<noteq> Inl DunderAttributeError
   \<and> make_protected_name_prefix ''_abc'' True = Inr ''__abc''"
  by (simp add: make_protected_name_prefix_def startswith_def)

section \<open>Renaming\<close>

text \<open>
  Claim C10, as the code has it. Take an instance that stores none of the names that a
  call of \<^verbatim>\<open>_updateattr\<close> looks up (\<^verbatim>\<open>_updateattr\<close> itself, \<^verbatim>\<open>__getattr__\<close>,
  \<^verbatim>\<open>__setattr__\<close>, \<^verbatim>\<open>__delattr__\<close>, \<^verbatim>\<open>_isforbidden\<close>, \<^verbatim>\<open>_getforbiddenlist\<close>), and two
  different names \<open>old\<close> and \<open>new\<close>, neither of them one of the last five, where \<open>old\<close>
  is not forbidden and is stored under neither \<open>old\<close> nor \<open>_old\<close>. Then the call
  \<^verbatim>\<open>_updateattr(old, new)\<close> returns normally and prints nothing; afterwards \<open>new\<close>
  holds \<^verbatim>\<open>None\<close>, \<open>old\<close> is not stored, and every other key holds what it held.
\<close>

theorem updateattr_missing_source:
  assumes "\<not> hasattr s old" and "\<not> hasattr s (''_'' @ old)"
      and "stripped old \<notin> set forbiddenlist" and "old \<noteq> new"
      and "\<not> hasattr s ''_updateattr''" and "unshadowed rename_names s"
      and "old \<notin> set rename_names" and "new \<notin> set rename_names"
  shows "fst (self_call ''_updateattr'' (updateattr forbiddenlist old new) s) = Inr ()
     \<and> attrs (snd (self_call ''_updateattr'' (updateattr forbiddenlist old new) s)) new
         = Some PyNone
     \<and> \<not> hasattr (snd (self_call ''_updateattr'' (updateattr forbiddenlist old new) s)) old
     \<and> attrs (snd (self_call ''_updateattr'' (updateattr forbiddenlist old new) s))
         = (attrs s)(new \<mapsto> PyNone)
     \<and> stdout (snd (self_call ''_updateattr'' (updateattr forbiddenlist old new) s)) = stdout s"
proof -
  note u = assms(6-8)
  from assms(5) have c: "self_call ''_updateattr'' (updateattr forbiddenlist old new) s
      = updateattr forbiddenlist old new s"
    by (rule self_call_found)
  from assms(1,2) have "attrs (snd (updateattr forbiddenlist old new s))
      = ((attrs s)(new \<mapsto> PyNone))(old := None)"
    by (simp add: updateattr_attrs[OF u assms(3)])
  with assms(1,4) have a: "attrs (snd (updateattr forbiddenlist old new s)) = (attrs s)(new \<mapsto> PyNone)"
    by (auto simp: hasattr_attrs fun_eq_iff)
  from assms(1,2) have o: "stdout (snd (updateattr forbiddenlist old new s)) = stdout s"
    by (simp add: updateattr_prints[OF u assms(3)])
  from assms(1,4) have "\<not> hasattr (snd (updateattr forbiddenlist old new s)) old"
    unfolding hasattr_attrs a by simp
  with a o updateattr_fst[OF u, of forbiddenlist] show ?thesis
    unfolding c by simp
qed

theorem updateattr_missing_source_witness:
  "\<not> hasattr new_obj ''type'' \<and> \<not> hasattr new_obj ''_type''
   \<and> stripped ''type'' \<notin> set MyDataClass_forbiddenlist \<and> ''type'' \<noteq> ''kind''
   \<and> \<not> hasattr new_obj ''_updateattr'' \<and> unshadowed rename_names new_obj
   \<and> ''type'' \<notin> set rename_names \<and> ''kind'' \<notin> set rename_names
   \<and> fst (self_call ''_updateattr'' (updateattr MyDataClass_forbiddenlist ''type'' ''kind'') new_obj)
       = Inr ()
   \<and> attrs (snd (self_call ''_updateattr'' (updateattr MyDataClass_forbiddenlist ''type'' ''kind'')
                   new_obj)) ''kind'' = Some PyNone
   \<and> \<not> hasattr (snd (self_call ''_updateattr'' (updateattr MyDataClass_forbiddenlist ''type'' ''kind'')
                        new_obj)) ''type''"
proof -
  have a: "\<not> hasattr new_obj ''type''" and b: "\<not> hasattr new_obj (''_'' @ ''type'')"
    by (simp_all add: new_obj_def hasattr_def dict_contains_def dict_keys_def)
  have c: "stripped ''type'' \<notin> set MyDataClass_forbiddenlist"
    by (simp add: MyDataClass_forbiddenlist_def stripped_def lstrip_def rstrip_def)
  have d: "''type'' \<noteq> ''kind''" by simp
  have h: "\<not> hasattr new_obj ''_updateattr''"
    by (simp add: new_obj_def hasattr_def dict_contains_def dict_keys_def)
  have e: "unshadowed rename_names new_obj"
    by (simp add: unshadowed_def new_obj_def hasattr_def dict_contains_def dict_keys_def)
  have f: "''type'' \<notin> set rename_names" and g: "''kind'' \<notin> set rename_names"
    by (simp_all add: rename_names_def)
  from updateattr_missing_source[OF a b c d h e f g] a b c h e f g show ?thesis by simp
qed

text \<open>
  Two calls for which the claim fails. On the instance of
  \<^verbatim>\<open>ProtectedClass(isforbidden=1)\<close>, which stores \<^verbatim>\<open>_isforbidden\<close>, the call
  \<^verbatim>\<open>_updateattr('a', 'b')\<close> creates \<^verbatim>\<open>a\<close>, writes \<^verbatim>\<open>b\<close>, and then its call of
  \<^verbatim>\<open>__delattr__\<close> raises \<^verbatim>\<open>TypeError\<close>, which is printed and raised again: the caller
  gets the exception, and both \<^verbatim>\<open>a\<close> and \<^verbatim>\<open>b\<close> are left stored. And on an empty
  instance \<^verbatim>\<open>_updateattr('a', 'a')\<close>, with the same name twice, returns normally and
  leaves nothing stored: the key it has created and written is the key it deletes.
\<close>

theorem updateattr_raises_when_isforbidden_is_stored:
  "init [] [(''isforbidden'', PyInt 1)]
     = (Inr (), \<lparr>dict = [(''_isforbidden'', PyInt 1)], stdout = []\<rparr>)
   \<and> \<not> hasattr \<lparr>dict = [(''_isforbidden'', PyInt 1)], stdout = []\<rparr> ''a''
   \<and> \<not> hasattr \<lparr>dict = [(''_isforbidden'', PyInt 1)], stdout = []\<rparr> ''_a''
   \<and> stripped ''a'' \<notin> set ProtectedClass_forbiddenlist
   \<and> self_call ''_updateattr'' (updateattr ProtectedClass_forbiddenlist ''a'' ''b'')
        \<lparr>dict = [(''_isforbidden'', PyInt 1)], stdout = []\<rparr>
       = (Inl (TypeError ''_isforbidden''),
          \<lparr>dict = [(''_isforbidden'', PyInt 1), (''a'', PyNone), (''b'', PyNone)],
           stdout = [UpdateattrException ''a'' ''b'' (TypeError ''_isforbidden'')]\<rparr>)
   \<and> \<not> hasattr new_obj ''a'' \<and> \<not> hasattr new_obj ''_a''
   \<and> self_call ''_updateattr'' (updateattr ProtectedClass_forbiddenlist ''a'' ''a'') new_obj
       = (Inr (), \<lparr>dict = [], stdout = []\<rparr>)"
  by code_simp

section \<open>Classifying a name\<close>





section \<open>Protecting and unprotecting\<close>

text \<open>
  Claim C1, as the code has it. Let \<open>n\<close> be a name without leading or trailing
  underscores that is not forbidden and is stored under its plain spelling \<open>n\<close>, on an
  instance that stores none of the names a call of \<^verbatim>\<open>protect\<close> or \<^verbatim>\<open>unprotect\<close> looks
  up, and let \<open>_n\<close> be none of these names either. Then \<^verbatim>\<open>obj.protect(n)\<close> moves the
  entry to \<open>_n\<close>, and \<^verbatim>\<open>obj.unprotect(n)\<close> after it moves it back: both calls return
  normally, \<open>n\<close> again holds the value it held, \<open>_n\<close> is not stored, every other key holds
  what it held, and nothing is printed.
\<close>

theorem protect_unprotect_roundtrip:
  assumes plain: "stripped n = n"
      and allowed: "stripped n \<notin> set forbiddenlist"
      and stored: "hasattr s n"
      and found: "unshadowed toggle_names s"
      and fresh: "''_'' @ n \<notin> set toggle_names"
  shows "fst (run_call forbiddenlist (Protect [n]) s) = Inr ()
     \<and> attrs (snd (run_call forbiddenlist (Protect [n]) s))
         = ((attrs s)(''_'' @ n := attrs s n))(n := None)
     \<and> fst (run_calls forbiddenlist [Protect [n], Unprotect [n]] s) = Inr ()
     \<and> attrs (snd (run_calls forbiddenlist [Protect [n], Unprotect [n]] s))
         = (attrs s)(''_'' @ n := None)
     \<and> stdout (snd (run_calls forbiddenlist [Protect [n], Unprotect [n]] s)) = stdout s"
proof -
  let ?p = "CHR ''_'' # n"
  let ?F = forbiddenlist
  define s1 where "s1 = snd (updateattr ?F n ?p s)"
  define s2 where "s2 = snd (updateattr ?F ?p n s1)"
  from plain have "\<not> startswith n ''_''"
    by (rule stripped_fixed_plain)
  then have undo: "undo_protected_name_prefix n = n"
    by (rule undo_plain)
  from stored found have n_tog: "n \<notin> set toggle_names"
    by (auto dest: unshadowedD)
  from fresh have p_tog: "?p \<notin> set toggle_names" by simp
  from n_tog p_tog rename_in_toggle
  have n_ren: "n \<notin> set rename_names" and p_ren: "?p \<notin> set rename_names"
    by blast+
  from found have ren: "unshadowed rename_names s"
    by (simp add: unshadowed_toggle_iff)
  from stored obtain v where v: "attrs s n = Some v"
    by (auto simp: hasattr_attrs)
  \<comment> \<open>the first call\<close>
  have "protect_arg ?F n s = (Inr (), s1)"
    using protect_arg_found[OF found, of n ?F] n_ren p_ren allowed stored plain
    by (simp add: undo s1_def)
  then have "protect ?F [n] s = (Inr (), s1)"
    by (simp add: protect_single)
  with found have c1: "run_call ?F (Protect [n]) s = (Inr (), s1)"
    by (simp add: unshadowed_toggle_iff self_call_found)
  have allowed_n: "stripped n \<notin> set ?F" by (rule allowed)
  have a1: "attrs s1 = ((attrs s)(?p \<mapsto> v))(n := None)"
    unfolding s1_def using stored v
    by (simp add: updateattr_attrs[OF ren n_ren p_ren allowed_n])
  have o1: "stdout s1 = stdout s"
    unfolding s1_def using stored
    by (simp add: updateattr_prints[OF ren n_ren p_ren allowed_n])
  have h1: "hasattr s1 k \<longleftrightarrow> (k = ?p \<or> hasattr s k) \<and> k \<noteq> n" for k
    unfolding s1_def by (rule updateattr_hasattr[OF ren n_ren p_ren allowed_n])
  \<comment> \<open>the second call\<close>
  from found p_tog have found1: "unshadowed toggle_names s1"
    by (auto simp: unshadowed_def h1)
  then have ren1: "unshadowed rename_names s1"
    by (simp add: unshadowed_toggle_iff)
  have allowed_p: "stripped ?p \<notin> set ?F" using allowed by simp
  have "unprotect_arg ?F n s1 = (Inr (), s2)"
    using unprotect_arg_found[OF found1 p_ren n_ren, of ?F] allowed plain
    by (simp add: h1 s2_def)
  then have "unprotect ?F [n] s1 = (Inr (), s2)"
    by (simp add: unprotect_single)
  with found1 have c2: "run_call ?F (Unprotect [n]) s1 = (Inr (), s2)"
    by (simp add: unshadowed_toggle_iff self_call_found)
  have "attrs s2 = ((attrs s1)(n \<mapsto> the (attrs s1 ?p)))(?p := None)"
    unfolding s2_def by (simp add: updateattr_attrs[OF ren1 p_ren n_ren allowed_p] h1)
  then have a2: "attrs s2 = (attrs s)(?p := None)"
    unfolding a1 using v by (auto simp: fun_eq_iff)
  have o2: "stdout s2 = stdout s1"
    unfolding s2_def by (simp add: updateattr_prints[OF ren1 p_ren n_ren allowed_p] h1)
  have c12: "run_calls ?F [Protect [n], Unprotect [n]] s = (Inr (), s2)"
    by (simp add: run_calls_def c1 c2 del: run_call.simps)
  from a1 v have a1': "attrs s1 = ((attrs s)(?p := attrs s n))(n := None)"
    by simp
  show ?thesis
    using a1' a2 o1 o2 by (simp add: c1 c12 del: run_call.simps)
qed

theorem protect_unprotect_roundtrip_witness:
  "stripped ''type'' = ''type''
   \<and> stripped ''type'' \<notin> set MyDataClass_forbiddenlist
   \<and> hasattr \<lparr>dict = [(''_count'', PyStr ''162''), (''type'', PyStr ''full'')], stdout = []\<rparr> ''type''
   \<and> unshadowed toggle_names
        \<lparr>dict = [(''_count'', PyStr ''162''), (''type'', PyStr ''full'')], stdout = []\<rparr>
   \<and> ''_type'' \<notin> set toggle_names
   \<and> fst (run_calls MyDataClass_forbiddenlist [Protect [''type''], Unprotect [''type'']]
          \<lparr>dict = [(''_count'', PyStr ''162''), (''type'', PyStr ''full'')], stdout = []\<rparr>) = Inr ()
   \<and> attrs (snd (run_calls MyDataClass_forbiddenlist [Protect [''type''], Unprotect [''type'']]
          \<lparr>dict = [(''_count'', PyStr ''162''), (''type'', PyStr ''full'')], stdout = []\<rparr>)) ''type''
       = Some (PyStr ''full'')
   \<and> attrs (snd (run_calls MyDataClass_forbiddenlist [Protect [''type''], Unprotect [''type'']]
          \<lparr>dict = [(''_count'', PyStr ''162''), (''type'', PyStr ''full'')], stdout = []\<rparr>)) ''_type''
       = None"
proof -
  let ?s = "\<lparr>dict = [(''_count'', PyStr ''162''), (''type'', PyStr ''full'')], stdout = []\<rparr>"
  have a: "stripped ''type'' = ''type''"
    by (simp add: stripped_def lstrip_def rstrip_def)
  have b: "stripped ''type'' \<notin> set MyDataClass_forbiddenlist"
    by (simp add: MyDataClass_forbiddenlist_def a)
  have c: "hasattr ?s ''type''"
    by (simp add: hasattr_def dict_contains_def dict_keys_def)
  have d: "unshadowed toggle_names ?s"
    by (simp add: unshadowed_def toggle_names_def rename_names_def hasattr_def dict_contains_def
        dict_keys_def)
  have e: "''_'' @ ''type'' \<notin> set toggle_names"
    by (simp add: toggle_names_def rename_names_def)
  from protect_unprotect_roundtrip[OF a b c d e] a b c d e show ?thesis
    by simp
qed

text \<open>
  Three instances on which the two calls do not restore the spelling. Built from the
  keyword argument \<^verbatim>\<open>type='full'\<close>, an instance stores \<^verbatim>\<open>_type\<close>; \<^verbatim>\<open>protect('type')\<close>
  leaves it there and \<^verbatim>\<open>unprotect('type')\<close> then renames it, so the calls end with the
  plain spelling stored. With \<^verbatim>\<open>a_\<close> and \<^verbatim>\<open>a\<close> stored, \<^verbatim>\<open>protect('a_')\<close> renames \<^verbatim>\<open>a_\<close> to
  \<^verbatim>\<open>_a_\<close> and \<^verbatim>\<open>unprotect('a_')\<close> does not see it as protected. With \<^verbatim>\<open>hasattr\<close> stored,
  \<^verbatim>\<open>protect('hasattr')\<close> stores \<^verbatim>\<open>_hasattr\<close>, after which \<^verbatim>\<open>unprotect('hasattr')\<close> raises
  \<^verbatim>\<open>TypeError\<close>.
\<close>

theorem roundtrip_fails:
  "stripped ''type'' = ''type'' \<and> \<not> is_dunder_attrib ''type''
   \<and> stripped ''type'' \<notin> set MyDataClass_forbiddenlist
   \<and> init [] [(''type'', PyStr ''full'')]
       = (Inr (), \<lparr>dict = [(''_type'', PyStr ''full'')], stdout = []\<rparr>)
   \<and> run_calls MyDataClass_forbiddenlist [Protect [''type''], Unprotect [''type'']]
        \<lparr>dict = [(''_type'', PyStr ''full'')], stdout = []\<rparr>
       = (Inr (), \<lparr>dict = [(''type'', PyStr ''full'')], stdout = []\<rparr>)
   \<and> \<not> is_dunder_attrib ''a_'' \<and> stripped ''a_'' \<notin> set ProtectedClass_forbiddenlist
   \<and> run_calls ProtectedClass_forbiddenlist [Protect [''a_''], Unprotect [''a_'']]
        \<lparr>dict = [(''a_'', PyInt 1), (''a'', PyInt 2)], stdout = []\<rparr>
       = (Inr (), \<lparr>dict = [(''a'', PyInt 2), (''_a_'', PyInt 1)], stdout = []\<rparr>)
   \<and> stripped ''hasattr'' = ''hasattr'' \<and> \<not> is_dunder_attrib ''hasattr''
   \<and> stripped ''hasattr'' \<notin> set ProtectedClass_forbiddenlist
   \<and> run_calls ProtectedClass_forbiddenlist [Protect [''hasattr''], Unprotect [''hasattr'']]
        \<lparr>dict = [(''hasattr'', PyInt 1)], stdout = []\<rparr>
       = (Inl (TypeError ''_hasattr''), \<lparr>dict = [(''_hasattr'', PyInt 1)], stdout = []\<rparr>)"
  by code_simp

text \<open>
  Claim C6, as the code has it. \<^verbatim>\<open>protect\<close> and \<^verbatim>\<open>unprotect\<close> call
  \<^verbatim>\<open>make_protected_name_prefix\<close> with the guard off, which returns the prefixed name for
  every name. So, for every instance whose stored values are data and for all names, a
  call \<^verbatim>\<open>obj.protect(...)\<close> or \<^verbatim>\<open>obj.unprotect(...)\<close> returns normally or raises the
  \<^verbatim>\<open>TypeError\<close> of a method shadowed by a stored key, never \<^verbatim>\<open>DunderAttributeError\<close>,
  and no line it prints reports a \<^verbatim>\<open>DunderAttributeError\<close>.
  \<^verbatim>\<open>make_protected_name_prefix\<close> raises nothing but \<^verbatim>\<open>DunderAttributeError\<close>, and that
  only with the guard on, for a name longer than two characters that starts with two
  underscores.
\<close>

theorem protect_unprotect_no_dunder_error:
  "(fst (run_call forbiddenlist (Protect names) s) = Inr ()
      \<or> (\<exists>m. fst (run_call forbiddenlist (Protect names) s) = Inl (TypeError m)))
   \<and> (fst (run_call forbiddenlist (Unprotect names) s) = Inr ()
      \<or> (\<exists>m. fst (run_call forbiddenlist (Unprotect names) s) = Inl (TypeError m)))
   \<and> (\<exists>ls. stdout (snd (run_call forbiddenlist (Protect names) s)) = stdout s @ ls
           \<and> list_all (\<lambda>l. line_error l \<noteq> Some DunderAttributeError) ls)
   \<and> (\<exists>ls. stdout (snd (run_call forbiddenlist (Unprotect names) s)) = stdout s @ ls
           \<and> list_all (\<lambda>l. line_error l \<noteq> Some DunderAttributeError) ls)
   \<and> make_protected_name_prefix name False = Inr (''_'' @ name)
   \<and> (make_protected_name_prefix name ignore = Inl e) =
       (e = DunderAttributeError \<and> ignore \<and> 2 < length name \<and> startswith name ''__'')"
proof -
  have "quiet s (run_call forbiddenlist (Protect names) s)"
    and "quiet s (run_call forbiddenlist (Unprotect names) s)"
    by (simp_all add: quiet_self_call quiet_protect quiet_unprotect)
  then show ?thesis
    unfolding quiet_def by (auto simp: make_protected_name_prefix_def simp del: run_call.simps)
qed

text \<open>
  \<^verbatim>\<open>unprotect('__secret__')\<close> on an instance that stores \<^verbatim>\<open>__secret__\<close> prefixes a
  dunder name and returns normally.
\<close>

theorem unprotect_dunder_name_returns:
  "is_dunder_attrib ''__secret__''
   \<and> hasprotectedattr \<lparr>dict = [(''__secret__'', PyInt 1)], stdout = []\<rparr> ''__secret__'' = Inr True
   \<and> stripped ''__secret__'' \<notin> set ProtectedClass_forbiddenlist
   \<and> make_protected_name_prefix ''__secret__'' False = Inr ''___secret__''
   \<and> run_call ProtectedClass_forbiddenlist (Unprotect [''__secret__''])
        \<lparr>dict = [(''__secret__'', PyInt 1)], stdout = []\<rparr>
       = (Inr (), \<lparr>dict = [(''__secret__'', PyNone)], stdout = []\<rparr>)
   \<and> fst (run_call ProtectedClass_forbiddenlist (Unprotect [''__secret__''])
          \<lparr>dict = [(''__secret__'', PyInt 1)], stdout = []\<rparr>)
       \<noteq> Inl DunderAttributeError"
  by code_simp

text \<open>
  Claim C2, at one input. \<^verbatim>\<open>MyDataClass(count='162', type='full')\<close> stores \<^verbatim>\<open>_hello\<close>,
  \<^verbatim>\<open>_count\<close> and \<^verbatim>\<open>_type\<close>. \<^verbatim>\<open>unprotect()\<close> without names walks these keys; for
  \<^verbatim>\<open>_type\<close>, which is protected and not forbidden, it reads \<^verbatim>\<open>__type\<close>, which does not
  exist, and writes the resulting \<^verbatim>\<open>None\<close> over \<^verbatim>\<open>_type\<close>: the key keeps its protected
  spelling and loses its value. \<^verbatim>\<open>unprotect('type')\<close> on the same instance renames
  \<^verbatim>\<open>_type\<close> to \<^verbatim>\<open>type\<close> and keeps the value.
\<close>

theorem unprotect_without_names_loses_values:
  "MyDataClass_init [] [(''count'', PyStr ''162''), (''type'', PyStr ''full'')]
     = (Inr (), \<lparr>dict = [(''_hello'', PyNone), (''_count'', PyStr ''162''), (''_type'', PyStr ''full'')],
                 stdout = []\<rparr>)
   \<and> stripped ''_type'' \<notin> set MyDataClass_forbiddenlist
   \<and> hasprotectedattr
        \<lparr>dict = [(''_hello'', PyNone), (''_count'', PyStr ''162''), (''_type'', PyStr ''full'')],
         stdout = []\<rparr> ''_type'' = Inr True
   \<and> unprotect MyDataClass_forbiddenlist []
        \<lparr>dict = [(''_hello'', PyNone), (''_count'', PyStr ''162''), (''_type'', PyStr ''full'')],
         stdout = []\<rparr>
     = (Inr (), \<lparr>dict = [(''_hello'', PyNone), (''_count'', PyStr ''162''), (''_type'', PyNone)],
                 stdout = []\<rparr>)
   \<and> unprotect MyDataClass_forbiddenlist [''type'']
        \<lparr>dict = [(''_hello'', PyNone), (''_count'', PyStr ''162''), (''_type'', PyStr ''full'')],
         stdout = []\<rparr>
     = (Inr (), \<lparr>dict = [(''_hello'', PyNone), (''_count'', PyStr ''162''), (''type'', PyStr ''full'')],
                 stdout = []\<rparr>)"
  by code_simp

section \<open>One spelling at a time\<close>






end
